theory Spec2Isabelle
  imports Complex_Main "HOL-Library.Sublist" "HOL-Library.Log_Nat" "HOL-Library.AList"
begin

section \<open>Python values used by \<^verbatim>\<open>prepare-member-import.py\<close>\<close>

text \<open>
  The script reads two spreadsheets and writes one JSON document. Its strings are Python
  \<^verbatim>\<open>str\<close> values; here a string is a \<^typ>\<open>string\<close> whose characters are the code
  points 0 to 255 (Latin-1), which covers every literal of the script (the column headers
  are Spanish). \<^verbatim>\<open>str.strip\<close>, \<^verbatim>\<open>str.lower\<close> and the numeric parsers are
  written out for that range.
\<close>

subsection \<open>Errors\<close>

datatype error =
  KeyError | AttributeError | ValueError | TypeError | OverflowError | IndexError

definition bind_err :: "error + 'a \<Rightarrow> ('a \<Rightarrow> error + 'b) \<Rightarrow> error + 'b" where
  "bind_err m f = (case m of Inl e \<Rightarrow> Inl e | Inr x \<Rightarrow> f x)"

subsection \<open>String methods\<close>

definition is_space :: "char \<Rightarrow> bool" where
  \<comment> \<open>\<^verbatim>\<open>str.isspace\<close> on one character\<close>
  "is_space c = (let n = (of_char c :: nat)
     in (9 \<le> n \<and> n \<le> 13) \<or> (28 \<le> n \<and> n \<le> 32) \<or> n = 133 \<or> n = 160)"

definition strip :: "string \<Rightarrow> string" where
  "strip s = rev (dropWhile is_space (rev (dropWhile is_space s)))"

definition lower_char :: "char \<Rightarrow> char" where
  "lower_char c = (let n = (of_char c :: nat)
     in if (65 \<le> n \<and> n \<le> 90) \<or> (192 \<le> n \<and> n \<le> 214) \<or> (216 \<le> n \<and> n \<le> 222)
        then char_of (n + 32) else c)"

definition lower :: "string \<Rightarrow> string" where
  "lower s = map lower_char s"

definition replace_char :: "char \<Rightarrow> char \<Rightarrow> string \<Rightarrow> string" where
  \<comment> \<open>\<^verbatim>\<open>s.replace(a, b)\<close> for one-character \<open>a\<close> and \<open>b\<close>\<close>
  "replace_char a b s = map (\<lambda>c. if c = a then b else c) s"

fun split_char :: "char \<Rightarrow> string \<Rightarrow> string list" where
  \<comment> \<open>\<^verbatim>\<open>s.split(sep)\<close> for a one-character separator: never the empty list\<close>
  "split_char sep [] = [[]]"
| "split_char sep (c # cs) =
     (if c = sep then [] # split_char sep cs
      else (case split_char sep cs of [] \<Rightarrow> [[c]] | t # ts \<Rightarrow> (c # t) # ts))"

fun py_in :: "string \<Rightarrow> string \<Rightarrow> bool" where
  \<comment> \<open>\<^verbatim>\<open>sub in s\<close>\<close>
  "py_in sub [] = (sub = [])"
| "py_in sub (c # cs) = (prefix sub (c # cs) \<or> py_in sub cs)"

fun join :: "string \<Rightarrow> string list \<Rightarrow> string" where
  \<comment> \<open>\<^verbatim>\<open>sep.join(xs)\<close>\<close>
  "join sep [] = []"
| "join sep [x] = x"
| "join sep (x # y # ys) = x @ sep @ join sep (y # ys)"

definition filter_None :: "string option list \<Rightarrow> string list" where
  \<comment> \<open>\<^verbatim>\<open>filter(None, xs)\<close>: drops \<^verbatim>\<open>None\<close> and the empty string\<close>
  "filter_None xs = filter (\<lambda>s. s \<noteq> []) (List.map_filter id xs)"

subsection \<open>Integers and floats\<close>

definition is_digit :: "char \<Rightarrow> bool" where
  "is_digit c = (let n = (of_char c :: nat) in 48 \<le> n \<and> n \<le> 57)"

definition digit_val :: "char \<Rightarrow> nat" where
  "digit_val c = of_char c - 48"

definition nat_of_digits :: "string \<Rightarrow> nat" where
  "nat_of_digits ds = foldl (\<lambda>a c. 10 * a + digit_val c) 0 ds"

fun digits_of :: "nat \<Rightarrow> string" where
  "digits_of n =
     (if n < 10 then [char_of (48 + n)] else digits_of (n div 10) @ [char_of (48 + n mod 10)])"

declare digits_of.simps [simp del]

definition str_int :: "int \<Rightarrow> string" where
  \<comment> \<open>\<^verbatim>\<open>str(n)\<close> for an integer\<close>
  "str_int i = (if i < 0 then CHR ''-'' # digits_of (nat (- i)) else digits_of (nat i))"

datatype pyfloat = Fin rat | PInf | NInf | NaN

text \<open>
  A finite float is given by its exact value. Conversions into floats round to the nearest
  binary64 value, ties to even, and overflow to an infinity.
\<close>

definition pow2 :: "int \<Rightarrow> rat" where
  "pow2 k = (if 0 \<le> k then 2 ^ nat k else 1 / 2 ^ nat (- k))"

definition ilog2 :: "rat \<Rightarrow> int" where
  \<comment> \<open>for \<open>0 < a\<close>, the \<open>e\<close> with \<open>2 ^ e \<le> a < 2 ^ (e + 1)\<close>\<close>
  "ilog2 a = (case quotient_of a of (n, d) \<Rightarrow>
     (let k = bitlen n - bitlen d in if pow2 k \<le> a then k else k - 1))"

definition round_half_even :: "rat \<Rightarrow> int" where
  "round_half_even x = (let f = \<lfloor>x\<rfloor>; r = x - of_int f
     in if r < 1 / 2 then f else if 1 / 2 < r then f + 1 else if even f then f else f + 1)"

definition round64 :: "rat \<Rightarrow> pyfloat" where
  "round64 q =
     (if q = 0 then Fin 0
      else let a = \<bar>q\<bar>;
               e = max (ilog2 a) (- 1022);
               u = pow2 (e - 52);
               v = of_int (round_half_even (a / u)) * u
           in if pow2 1024 \<le> v then (if 0 < q then PInf else NInf)
              else Fin (if 0 < q then v else - v))"

definition is_num_space :: "char \<Rightarrow> bool" where
  \<comment> \<open>the whitespace \<^verbatim>\<open>int()\<close> and \<^verbatim>\<open>float()\<close> strip from a string\<close>
  "is_num_space c = (let n = (of_char c :: nat)
     in (9 \<le> n \<and> n \<le> 13) \<or> n = 32 \<or> n = 133 \<or> n = 160)"

definition num_strip :: "string \<Rightarrow> string" where
  "num_strip s = rev (dropWhile is_num_space (rev (dropWhile is_num_space s)))"

fun underscores_ok :: "char \<Rightarrow> string \<Rightarrow> bool" where
  \<comment> \<open>an underscore of a numeric literal stands between two digits; the first argument
      is the previous character\<close>
  "underscores_ok prev [] = (prev \<noteq> CHR ''_'')"
| "underscores_ok prev (c # cs) =
     ((if c = CHR ''_'' then is_digit prev
       else if prev = CHR ''_'' then is_digit c else True)
      \<and> underscores_ok c cs)"

definition split_sign :: "string \<Rightarrow> bool \<times> string" where
  \<comment> \<open>an optional sign; the flag says negative\<close>
  "split_sign s = (case s of [] \<Rightarrow> (False, [])
     | c # cs \<Rightarrow> if c = CHR ''-'' then (True, cs) else if c = CHR ''+'' then (False, cs)
                else (False, s))"

definition int_of_str :: "string \<Rightarrow> int option" where
  \<comment> \<open>\<^verbatim>\<open>int(s)\<close> for a string, base 10; \<open>None\<close> is \<^verbatim>\<open>ValueError\<close>\<close>
  "int_of_str s =
     (let t = num_strip s in
      if \<not> underscores_ok (CHR 0x00) t then None
      else case split_sign (filter (\<lambda>c. c \<noteq> CHR ''_'') t) of (neg, ds) \<Rightarrow>
        if ds \<noteq> [] \<and> list_all is_digit ds
        then Some (if neg then - int (nat_of_digits ds) else int (nat_of_digits ds))
        else None)"

definition span_digits :: "string \<Rightarrow> string \<times> string" where
  "span_digits s = (takeWhile is_digit s, dropWhile is_digit s)"

definition exponent_of :: "string \<Rightarrow> int option" where
  \<comment> \<open>the optional exponent part that ends a float literal\<close>
  "exponent_of s = (case s of [] \<Rightarrow> Some 0
     | c # cs \<Rightarrow>
        if c = CHR ''e'' \<or> c = CHR ''E''
        then (case split_sign cs of (neg, ds) \<Rightarrow>
                if ds \<noteq> [] \<and> list_all is_digit ds
                then Some (if neg then - int (nat_of_digits ds) else int (nat_of_digits ds))
                else None)
        else None)"

definition pow10 :: "int \<Rightarrow> rat" where
  "pow10 k = (if 0 \<le> k then 10 ^ nat k else 1 / 10 ^ nat (- k))"

definition decimal_of_str :: "string \<Rightarrow> rat option" where
  \<comment> \<open>digits, an optional fraction and an optional exponent, at least one digit before
      the exponent\<close>
  "decimal_of_str s =
     (case span_digits s of (ip, r1) \<Rightarrow>
      case (case r1 of [] \<Rightarrow> ([], r1)
             | c # cs \<Rightarrow> if c = CHR ''.'' then span_digits cs else ([], r1)) of (fp, r2) \<Rightarrow>
        if ip = [] \<and> fp = [] then None
        else case exponent_of r2 of None \<Rightarrow> None
           | Some ex \<Rightarrow>
               Some (of_nat (nat_of_digits (ip @ fp)) * pow10 (ex - int (length fp))))"

definition float_of_str :: "string \<Rightarrow> pyfloat option" where
  \<comment> \<open>\<^verbatim>\<open>float(s)\<close> for a string; \<open>None\<close> is \<^verbatim>\<open>ValueError\<close>\<close>
  "float_of_str s =
     (let t = num_strip s in
      if \<not> underscores_ok (CHR 0x00) t then None
      else case split_sign (filter (\<lambda>c. c \<noteq> CHR ''_'') t) of (neg, r) \<Rightarrow>
        if lower r = ''inf'' \<or> lower r = ''infinity'' then Some (if neg then NInf else PInf)
        else if lower r = ''nan'' then Some NaN
        else case decimal_of_str r of None \<Rightarrow> None
           | Some q \<Rightarrow> Some (round64 (if neg then - q else q)))"

definition int_of_float :: "pyfloat \<Rightarrow> error + int" where
  \<comment> \<open>\<^verbatim>\<open>int(x)\<close> for a float: truncation toward zero\<close>
  "int_of_float x = (case x of
       Fin q \<Rightarrow> Inr (if 0 \<le> q then \<lfloor>q\<rfloor> else \<lceil>q\<rceil>)
     | PInf \<Rightarrow> Inl OverflowError
     | NInf \<Rightarrow> Inl OverflowError
     | NaN \<Rightarrow> Inl ValueError)"

subsection \<open>Dates\<close>

record datetime =
  year :: nat
  month :: nat
  day :: nat
  hour :: nat
  minute :: nat
  second :: nat
  microsecond :: nat

definition zpad :: "nat \<Rightarrow> nat \<Rightarrow> string" where
  \<comment> \<open>\<open>n\<close> in decimal, zero-padded to width \<open>w\<close>\<close>
  "zpad w n = replicate (w - length (digits_of n)) (CHR ''0'') @ digits_of n"

definition format_datetime :: "char \<Rightarrow> datetime \<Rightarrow> string" where
  "format_datetime sep d =
     zpad 4 (year d) @ ''-'' @ zpad 2 (month d) @ ''-'' @ zpad 2 (day d) @ [sep]
     @ zpad 2 (hour d) @ '':'' @ zpad 2 (minute d) @ '':'' @ zpad 2 (second d)
     @ (if microsecond d = 0 then [] else ''.'' @ zpad 6 (microsecond d))"

definition isoformat :: "datetime \<Rightarrow> string" where
  "isoformat d = format_datetime (CHR ''T'') d"

subsection \<open>Spreadsheet cells\<close>

text \<open>
  A cell as \<^verbatim>\<open>pandas.read_excel\<close> hands it to the script: blank (\<^verbatim>\<open>None\<close>, \<^verbatim>\<open>NaT\<close>),
  text, a float, an integer, a boolean or a date. Python's shortest-digits rendering of a
  float is not written out here: a float cell \<open>Num x s\<close> carries its value \<open>x\<close> together
  with the text \<open>s\<close> that \<^verbatim>\<open>str\<close> gives for it. A blank numeric cell is the float NaN.
\<close>

datatype cell =
    Blank
  | Text string
  | Num pyfloat string
  | IntV int
  | BoolV bool
  | DateV datetime

fun isna :: "cell \<Rightarrow> bool" where
  \<comment> \<open>\<^verbatim>\<open>pd.isna\<close> on a scalar\<close>
  "isna Blank = True"
| "isna (Num NaN s) = True"
| "isna c = False"

definition notna :: "cell \<Rightarrow> bool" where
  "notna c = (\<not> isna c)"

fun py_str :: "cell \<Rightarrow> string" where
  \<comment> \<open>\<^verbatim>\<open>str(v)\<close>\<close>
  "py_str Blank = ''None''"
| "py_str (Text s) = s"
| "py_str (Num x s) = s"
| "py_str (IntV n) = str_int n"
| "py_str (BoolV b) = (if b then ''True'' else ''False'')"
| "py_str (DateV d) = format_datetime (CHR '' '') d"

fun py_float :: "cell \<Rightarrow> error + pyfloat" where
  \<comment> \<open>\<^verbatim>\<open>float(v)\<close>\<close>
  "py_float Blank = Inl TypeError"
| "py_float (Text s) = (case float_of_str s of None \<Rightarrow> Inl ValueError | Some x \<Rightarrow> Inr x)"
| "py_float (Num x s) = Inr x"
| "py_float (IntV n) =
     (case round64 (of_int n) of Fin q \<Rightarrow> Inr (Fin q) | _ \<Rightarrow> Inl OverflowError)"
| "py_float (BoolV b) = Inr (Fin (if b then 1 else 0))"
| "py_float (DateV d) = Inl TypeError"

fun py_int :: "cell \<Rightarrow> error + int" where
  \<comment> \<open>\<^verbatim>\<open>int(v)\<close>\<close>
  "py_int Blank = Inl TypeError"
| "py_int (Text s) = (case int_of_str s of None \<Rightarrow> Inl ValueError | Some n \<Rightarrow> Inr n)"
| "py_int (Num x s) = int_of_float x"
| "py_int (IntV n) = Inr n"
| "py_int (BoolV b) = Inr (if b then 1 else 0)"
| "py_int (DateV d) = Inl TypeError"

section \<open>The field normalizers\<close>

definition parse_skills :: "cell \<Rightarrow> string list" where
  "parse_skills raw =
     (if isna raw then []
      else filter (\<lambda>s. s \<noteq> [])
             (map strip (split_char (CHR '','') (replace_char (CHR '';'') (CHR '','') (py_str raw)))))"

definition normalize_academic_level :: "cell \<Rightarrow> string option" where
  "normalize_academic_level raw =
     (if isna raw then None
      else let val = strip (lower (py_str raw)) in
        if py_in ''licenciatura'' val then Some ''licenciatura''
        else if py_in ''posgrado'' val \<or> py_in ''maestr'' val \<or> py_in ''doctor'' val
          then Some ''posgrado''
        else if py_in ''curso'' val \<or> py_in (''actualizaci'' @ [CHR 0xF3] @ ''n'') val
          then Some ''curso''
        else None)"

definition safe_str :: "cell \<Rightarrow> string option" where
  "safe_str val =
     (if isna val then None
      else if strip (py_str val) = [] then None else Some (strip (py_str val)))"

definition normalize_generation :: "cell \<Rightarrow> error + string option" where
  \<comment> \<open>the \<^verbatim>\<open>except\<close> clause catches \<^verbatim>\<open>ValueError\<close> and \<^verbatim>\<open>TypeError\<close> only\<close>
  "normalize_generation raw =
     (if isna raw then Inr None
      else case bind_err (py_float raw) int_of_float of
          Inr n \<Rightarrow> Inr (Some (str_int n))
        | Inl ValueError \<Rightarrow> Inr (Some (strip (py_str raw)))
        | Inl TypeError \<Rightarrow> Inr (Some (strip (py_str raw)))
        | Inl e \<Rightarrow> Inl e)"

definition to_iso :: "(cell \<Rightarrow> string option) \<Rightarrow> cell \<Rightarrow> string option" where
  \<comment> \<open>\<open>timestamp_iso v\<close> stands for \<^verbatim>\<open>pd.Timestamp(v).isoformat()\<close>, \<open>None\<close> when it
      raises; the date parser of pandas is a parameter\<close>
  "to_iso timestamp_iso val =
     (if isna val then None
      else case val of DateV d \<Rightarrow> Some (isoformat d) | _ \<Rightarrow> timestamp_iso val)"

section \<open>The tables\<close>

text \<open>
  A loaded spreadsheet: its column headers and its rows, each row giving the cell under a
  header. \<^verbatim>\<open>row[k]\<close> raises \<^verbatim>\<open>KeyError\<close> on a header the row does not have,
  \<^verbatim>\<open>row.get(k)\<close> gives \<^verbatim>\<open>None\<close> there. Reading the two files is outside the model:
  \<open>main\<close> starts from the loaded tables.

  Two checks of the libraries are not written out, and both only make a run fail earlier:
  the \<^verbatim>\<open>.str\<close> accessor of pandas refuses a column that holds no text at all, and
  recent Python versions refuse to convert between \<^verbatim>\<open>int\<close> and a text of more than 4300
  digits. Where \<open>main\<close> returns an error the script fails too, and where the script writes
  a document it is the one \<open>main\<close> returns.
\<close>

type_synonym row = "string \<rightharpoonup> cell"

record dataframe =
  columns :: "string list"
  rows :: "row list"

definition getitem :: "row \<Rightarrow> string \<Rightarrow> error + cell" where
  "getitem r k = (case r k of None \<Rightarrow> Inl KeyError | Some c \<Rightarrow> Inr c)"

definition row_get :: "row \<Rightarrow> string \<Rightarrow> cell" where
  "row_get r k = (case r k of None \<Rightarrow> Blank | Some c \<Rightarrow> c)"

definition col_email :: string where
  "col_email = ''Direcci'' @ [CHR 0xF3] @ ''n de correo electr'' @ [CHR 0xF3] @ ''nico''"

definition col_numero_cuenta :: string where
  "col_numero_cuenta = ''Numero de cuenta''"

definition col_nombres :: string where
  "col_nombres = ''Nombre(s)''"

definition col_apellido_paterno :: string where
  "col_apellido_paterno = ''Apellido Paterno''"

definition col_apellido_materno :: string where
  "col_apellido_materno = ''Apellido Materno''"

definition col_miembro :: string where
  "col_miembro = ''Miembro''"

definition col_tipo_registro :: string where
  "col_tipo_registro = ''Tipo de registro''"

definition col_nivel_academico :: string where
  "col_nivel_academico = ''Indica el nivel acad'' @ [CHR 0xE9]
     @ ''mico en el que cursaste estudios de ciencia de datos en la UNAM.''"

definition col_sede :: string where
  "col_sede = ''Indica tu sede de estudios''"

definition col_generacion :: string where
  "col_generacion = ''Elige la generaci'' @ [CHR 0xF3] @ ''n a la que perteneces.''"

definition col_genero :: string where
  "col_genero = ''Indica el g'' @ [CHR 0xE9] @ ''nero con el que te identificas.''"

definition col_empresa :: string where
  "col_empresa = [CHR 0xDA] @ ''ltima empresa o instituci'' @ [CHR 0xF3]
     @ ''n en la que laboras / laboraste''"

definition col_puesto :: string where
  "col_puesto = ''Puesto de trabajo''"

definition col_situacion :: string where
  "col_situacion = ''Situaci'' @ [CHR 0xF3] @ ''n profesional''"

definition col_max_grado :: string where
  "col_max_grado = ''M'' @ [CHR 0xE1] @ ''ximo grado de estudios''"

definition col_max_grado_institucion :: string where
  "col_max_grado_institucion = ''Instituci'' @ [CHR 0xF3] @ ''n en la que cursaste el m''
     @ [CHR 0xE1] @ ''ximo grado de estudios''"

definition col_max_grado_programa :: string where
  "col_max_grado_programa = ''Nombre del programa del m'' @ [CHR 0xE1]
     @ ''ximo grado de estudios''"

definition col_intereses :: string where
  "col_intereses = ''Intereses / '' @ [CHR 0xE1] @ ''rea de expertise''"

definition col_experiencia :: string where
  "col_experiencia = ''Indica el nivel de experiencia que tienes en el '' @ [CHR 0xE1]
     @ ''rea de ciencia de datos''"

definition col_estudias :: string where
  "col_estudias = [CHR 0xBF] @ ''Estudias actualmente?''"

definition col_linkedin :: string where
  "col_linkedin = ''LinkedIn''"

definition col_instagram :: string where
  "col_instagram = ''Instagram''"

definition col_twitter :: string where
  "col_twitter = ''Twitter''"

definition col_facebook :: string where
  "col_facebook = ''Facebook''"

definition col_telefono :: string where
  "col_telefono = ''Tel'' @ [CHR 0xE9] @ ''fono''"

definition col_cv :: string where
  "col_cv = ''Curr'' @ [CHR 0xED] @ ''culum vitae''"

definition col_resume :: string where
  "col_resume = ''Resum'' @ [CHR 0xE9] @ '' (CV highlights)''"

definition col_nacimiento :: string where
  "col_nacimiento = ''Fecha de Nacimiento''"

definition col_marca_temporal :: string where
  "col_marca_temporal = ''Marca temporal''"

definition col_whatsapp :: string where
  "col_whatsapp = [CHR 0xBF] @ ''Autorizas que a'' @ [CHR 0xF1] @ ''adamos tu n'' @ [CHR 0xFA]
     @ ''mero de tel'' @ [CHR 0xE9]
     @ ''fono a la comunidad de WhatsApp de egresados de la SECiD?''"

definition col_objetivos :: string where
  "col_objetivos = [CHR 0xBF] @ ''Cu'' @ [CHR 0xE1]
     @ ''les son los principales objetivos de tu acercamiento a SECiD?''"

definition col_expectativas :: string where
  "col_expectativas = ''Describe a mayor detalle cu'' @ [CHR 0xE1]
     @ ''les son tus expectativas al colaborar con SECiD.''"

definition col_comentarios :: string where
  "col_comentarios =
     ''Comparte tus recomendaciones adicionales, comentarios, y sugerencias sobre c''
     @ [CHR 0xF3] @ ''mo podr'' @ [CHR 0xED] @ ''amos colaborar y mejorar.''"

definition priority_col :: "string \<Rightarrow> string" where
  "priority_col initiative =
     ''Selecciona el nivel de prioridad que le asignas a cada una de las siguientes ''
     @ ''iniciativas: ['' @ initiative @ '']''"

definition EXCLUDED_EMAILS :: "string set" where
  "EXCLUDED_EMAILS = {''prueba@secid.mx'', ''prueba_2@secid.mx''}"

definition str_strip_lower :: "cell \<Rightarrow> cell" where
  \<comment> \<open>\<^verbatim>\<open>.str.strip().str.lower()\<close> on one cell of a column: a cell that is not text
      becomes NaN\<close>
  "str_strip_lower c = (case c of Text s \<Rightarrow> Text (lower (strip s)) | _ \<Rightarrow> Num NaN ''nan'')"

definition add_email_norm :: "dataframe \<Rightarrow> error + dataframe" where
  \<comment> \<open>lines 64 and 65: the column \<^verbatim>\<open>email_norm\<close>\<close>
  "add_email_norm df =
     (if col_email \<notin> set (columns df) then Inl KeyError
      else Inr (df\<lparr>
        columns := (if ''email_norm'' \<in> set (columns df) then columns df
                    else columns df @ [''email_norm'']),
        rows := map (\<lambda>r. r(''email_norm'' \<mapsto> str_strip_lower (row_get r col_email)))
                  (rows df)\<rparr>))"

definition isin :: "cell \<Rightarrow> string set \<Rightarrow> bool" where
  "isin c S = (case c of Text s \<Rightarrow> s \<in> S | _ \<Rightarrow> False)"

definition exclude :: "dataframe \<Rightarrow> dataframe" where
  \<comment> \<open>line 67\<close>
  "exclude df =
     df\<lparr>rows := filter (\<lambda>r. \<not> isin (row_get r ''email_norm'') EXCLUDED_EMAILS) (rows df)\<rparr>"

section \<open>The account joiner\<close>

text \<open>
  The dictionary \<^verbatim>\<open>account_map\<close> is keyed by the \<^verbatim>\<open>email_norm\<close> cell itself, which
  is text or NaN; the record builder looks it up with text only.
\<close>

fun account_loop :: "(cell \<rightharpoonup> string) \<Rightarrow> row list \<Rightarrow> error + (cell \<rightharpoonup> string)" where
  "account_loop account_map [] = Inr account_map"
| "account_loop account_map (r # rs) =
     bind_err (getitem r ''email_norm'') (\<lambda>email.
       let nc = row_get r col_numero_cuenta in
       if notna nc
       then bind_err (py_int nc) (\<lambda>n. account_loop (account_map(email \<mapsto> str_int n)) rs)
       else account_loop account_map rs)"

section \<open>The record builder\<close>

datatype json = JNull | JStr string | JList "string list" | JDict "(string \<times> json) list"

type_synonym member_record = "(string \<times> json) list"

definition jopt :: "string option \<Rightarrow> json" where
  "jopt v = (case v of None \<Rightarrow> JNull | Some s \<Rightarrow> JStr s)"

definition local_part :: "string \<Rightarrow> error + string" where
  \<comment> \<open>\<^verbatim>\<open>email.split("@")[0]\<close>\<close>
  "local_part email =
     (case split_char (CHR ''@'') email of [] \<Rightarrow> Inl IndexError | p # ps \<Rightarrow> Inr p)"

record env =
  now_iso :: string
  timestamp_iso :: "cell \<Rightarrow> string option"

definition build_record :: "env \<Rightarrow> (cell \<rightharpoonup> string) \<Rightarrow> row \<Rightarrow> error + member_record" where
  "build_record E account_map r =
     bind_err (getitem r col_email) (\<lambda>email_cell.
     case email_cell of
       Text raw_email \<Rightarrow>
         (let email = strip raw_email; email_lower = lower email in
          bind_err (getitem r col_nombres) (\<lambda>nombres.
          bind_err (getitem r col_apellido_paterno) (\<lambda>paterno.
          bind_err (getitem r col_apellido_materno) (\<lambda>materno.
          let first_name = safe_str nombres;
              last_paterno = safe_str paterno;
              last_materno = safe_str materno;
              last_name = join '' '' (filter_None [last_paterno, last_materno]);
              display_name = join '' '' (filter_None [first_name, last_paterno]);
              is_member = notna (row_get r col_miembro);
              tipo = (case safe_str (row_get r col_tipo_registro) of None \<Rightarrow> [] | Some t \<Rightarrow> t);
              member = (is_member \<or> py_in ''miembro'' (lower tipo)
                        \<or> py_in ''egresado'' (lower tipo));
              role = (if member then ''member'' else ''collaborator'');
              lifecycle_status = (if member then ''active'' else ''collaborator'');
              registration_type = (if member then ''member'' else ''collaborator'');
              verification_status = (if member then ''approved'' else ''none'')
          in
          bind_err (if display_name \<noteq> [] then Inr display_name else local_part email)
            (\<lambda>shown.
          bind_err (normalize_generation (row_get r col_generacion)) (\<lambda>generation.
          let priorities =
                [(''bolsaTrabajo'', jopt (safe_str (row_get r (priority_col ''Bolsa Trabajo'')))),
                 (''hackatones'', jopt (safe_str (row_get r (priority_col ''Hackatones'')))),
                 (''cursosEspecializados'',
                    jopt (safe_str (row_get r (priority_col ''Cursos especializados'')))),
                 (''seminarios'', jopt (safe_str (row_get r (priority_col ''Seminarios'')))),
                 (''asesorias'',
                    jopt (safe_str (row_get r (priority_col (''Asesor'' @ [CHR 0xED] @ ''as''))))),
                 (''mentoria'',
                    jopt (safe_str (row_get r (priority_col (''Mentor'' @ [CHR 0xED] @ ''a''))))),
                 (''newsletter'', jopt (safe_str (row_get r (priority_col ''Newsletter''))))];
              record_dict =
                [(''email'', JStr email),
                 (''displayName'', JStr shown),
                 (''firstName'', jopt first_name),
                 (''lastName'', JStr last_name),
                 (''role'', JStr role),
                 (''registrationType'', JStr registration_type),
                 (''verificationStatus'', JStr verification_status),
                 (''lifecycleStatus'', JStr lifecycle_status),
                 (''numeroCuenta'', jopt (account_map (Text email_lower))),
                 (''academicLevel'', jopt (normalize_academic_level (row_get r col_nivel_academico))),
                 (''campus'', jopt (safe_str (row_get r col_sede))),
                 (''generation'', jopt generation),
                 (''gender'', jopt (safe_str (row_get r col_genero))),
                 (''company'', jopt (safe_str (row_get r col_empresa))),
                 (''position'', jopt (safe_str (row_get r col_puesto))),
                 (''professionalStatus'', jopt (safe_str (row_get r col_situacion))),
                 (''maxDegree'', jopt (safe_str (row_get r col_max_grado))),
                 (''maxDegreeInstitution'', jopt (safe_str (row_get r col_max_grado_institucion))),
                 (''maxDegreeProgram'', jopt (safe_str (row_get r col_max_grado_programa))),
                 (''skills'', JList (parse_skills (row_get r col_intereses))),
                 (''experienceLevel'', jopt (safe_str (row_get r col_experiencia))),
                 (''currentlyStudying'', jopt (safe_str (row_get r col_estudias))),
                 (''linkedin'', jopt (safe_str (row_get r col_linkedin))),
                 (''instagram'', jopt (safe_str (row_get r col_instagram))),
                 (''twitter'', jopt (safe_str (row_get r col_twitter))),
                 (''facebook'', jopt (safe_str (row_get r col_facebook))),
                 (''phone'', jopt (safe_str (row_get r col_telefono))),
                 (''cvUrl'', jopt (safe_str (row_get r col_cv))),
                 (''cvHighlights'', jopt (safe_str (row_get r col_resume))),
                 (''birthDate'', jopt (to_iso (timestamp_iso E) (row_get r col_nacimiento))),
                 (''registeredAt'', jopt (to_iso (timestamp_iso E) (row_get r col_marca_temporal))),
                 (''whatsappConsent'', jopt (safe_str (row_get r col_whatsapp))),
                 (''objectives'', jopt (safe_str (row_get r col_objetivos))),
                 (''expectations'', jopt (safe_str (row_get r col_expectativas))),
                 (''priorities'', JDict priorities),
                 (''comments'', jopt (safe_str (row_get r col_comentarios)))]
          in Inr (AList.update ''priorities''
                    (JDict (filter (\<lambda>(k, v). v \<noteq> JNull) priorities)) record_dict)))))))
     | _ \<Rightarrow> Inl AttributeError)"

fun build_records :: "env \<Rightarrow> (cell \<rightharpoonup> string) \<Rightarrow> row list \<Rightarrow> error + member_record list" where
  "build_records E account_map [] = Inr []"
| "build_records E account_map (r # rs) =
     bind_err (build_record E account_map r) (\<lambda>record_dict.
     bind_err (build_records E account_map rs) (\<lambda>records. Inr (record_dict # records)))"

section \<open>The output document\<close>

record output_doc =
  generatedAt :: string
  totalMembers :: nat
  memberCount :: nat
  collaboratorCount :: nat
  excludedEmails :: "string set"
  members :: "member_record list"

definition has_role :: "string \<Rightarrow> member_record \<Rightarrow> bool" where
  \<comment> \<open>\<^verbatim>\<open>r["role"] == name\<close>\<close>
  "has_role name r = (map_of r ''role'' = Some (JStr name))"

definition main :: "env \<Rightarrow> dataframe \<Rightarrow> dataframe \<Rightarrow> error + output_doc" where
  \<comment> \<open>\<open>Inr\<close> is the document written to the output file; on \<open>Inl\<close> nothing is written\<close>
  "main E df_members df_accounts =
     bind_err (add_email_norm df_members) (\<lambda>members1.
     bind_err (add_email_norm df_accounts) (\<lambda>accounts1.
     let members2 = exclude members1 in
     bind_err (account_loop Map.empty (rows accounts1)) (\<lambda>account_map.
     bind_err (build_records E account_map (rows members2)) (\<lambda>records.
     Inr \<lparr>generatedAt = now_iso E,
          totalMembers = length records,
          memberCount = length (filter (has_role ''member'') records),
          collaboratorCount = length (filter (has_role ''collaborator'') records),
          excludedEmails = EXCLUDED_EMAILS,
          members = records\<rparr>))))"

section \<open>Notions used to state the properties\<close>

text \<open>
  The decision of lines 87 to 90 of the script, as the record builder computes it.
\<close>

definition code_member :: "row \<Rightarrow> bool" where
  "code_member r =
     (let tipo = (case safe_str (row_get r col_tipo_registro) of None \<Rightarrow> [] | Some t \<Rightarrow> t)
      in notna (row_get r col_miembro) \<or> py_in ''miembro'' (lower tipo)
         \<or> py_in ''egresado'' (lower tipo))"

text \<open>
  The same decision in the words of the specification: the membership flag is present, or
  the text of the registration-type cell, lowercased, contains one of the two words.
\<close>

definition is_member_row :: "row \<Rightarrow> bool" where
  "is_member_row r =
     (notna (row_get r col_miembro)
      \<or> (notna (row_get r col_tipo_registro)
          \<and> (py_in ''miembro'' (lower (py_str (row_get r col_tipo_registro)))
             \<or> py_in ''egresado'' (lower (py_str (row_get r col_tipo_registro))))))"

definition classification :: "member_record \<Rightarrow> json option list" where
  "classification rcd =
     map (map_of rcd) [''role'', ''registrationType'', ''verificationStatus'', ''lifecycleStatus'']"

definition member_class :: "json option list" where
  "member_class = map (\<lambda>s. Some (JStr s)) [''member'', ''member'', ''approved'', ''active'']"

definition collaborator_class :: "json option list" where
  "collaborator_class =
     map (\<lambda>s. Some (JStr s)) [''collaborator'', ''collaborator'', ''none'', ''collaborator'']"

text \<open>
  The normalized email of a row (trimmed, lowercased; none when the cell is not text) and
  the member rows that survive the exclusion, in their original order.
\<close>

definition normalized_email :: "row \<Rightarrow> string option" where
  "normalized_email r =
     (case row_get r col_email of Text s \<Rightarrow> Some (lower (strip s)) | _ \<Rightarrow> None)"

definition surviving :: "dataframe \<Rightarrow> row list" where
  "surviving df =
     filter (\<lambda>r. case normalized_email r of None \<Rightarrow> True | Some e \<Rightarrow> e \<notin> EXCLUDED_EMAILS)
       (rows df)"

text \<open>Splitting a text at every character of a class, as the specification words it.\<close>

fun split_any :: "(char \<Rightarrow> bool) \<Rightarrow> string \<Rightarrow> string list" where
  "split_any P [] = [[]]"
| "split_any P (c # cs) =
     (if P c then [] # split_any P cs
      else (case split_any P cs of [] \<Rightarrow> [[c]] | t # ts \<Rightarrow> (c # t) # ts))"

definition truncate_toward_zero :: "rat \<Rightarrow> int" where
  "truncate_toward_zero q = (if q < 0 then - \<lfloor>- q\<rfloor> else \<lfloor>q\<rfloor>)"

text \<open>The non-absent values of some cells, and the two names built from them.\<close>

definition present_values :: "cell list \<Rightarrow> string list" where
  "present_values cs = List.map_filter safe_str cs"

definition spec_display_name :: "row \<Rightarrow> string" where
  "spec_display_name r =
     (let parts = present_values [row_get r col_nombres, row_get r col_apellido_paterno]
      in if parts = []
         then takeWhile (\<lambda>c. c \<noteq> CHR ''@'') (strip (py_str (row_get r col_email)))
         else join '' '' parts)"


definition int_value :: "cell \<Rightarrow> int option" where
  "int_value c = (case py_int c of Inl e \<Rightarrow> None | Inr n \<Rightarrow> Some n)"

text \<open>Two small tables on which the properties below are exercised.\<close>

definition demo_env :: env where
  "demo_env = \<lparr>now_iso = ''2026-01-01T00:00:00'', timestamp_iso = (\<lambda>c. None)\<rparr>"

definition demo_members :: dataframe where
  "demo_members =
     \<lparr>columns = [col_email, col_nombres, col_apellido_paterno, col_apellido_materno,
                 col_miembro, col_tipo_registro],
      rows =
        [map_of [(col_email, Text ''jdoe@example.com''), (col_nombres, Blank),
                 (col_apellido_paterno, Text ''  ''), (col_apellido_materno, Num NaN ''nan''),
                 (col_miembro, Blank), (col_tipo_registro, Text ''Soy EGRESADO'')],
         map_of [(col_email, Text ''PRUEBA@secid.mx ''), (col_nombres, Text ''x''),
                 (col_apellido_paterno, Text ''y''), (col_apellido_materno, Blank),
                 (col_miembro, Blank), (col_tipo_registro, Blank)],
         map_of [(col_email, Text '' Ana@x.org''), (col_nombres, Text '' Ana ''),
                 (col_apellido_paterno, Text ''Paz''), (col_apellido_materno, Text ''Ruiz''),
                 (col_miembro, Blank), (col_tipo_registro, Text ''otro'')]]\<rparr>"

definition demo_accounts :: dataframe where
  "demo_accounts =
     \<lparr>columns = [col_email, col_numero_cuenta],
      rows =
        [map_of [(col_email, Text ''jdoe@example.com''),
                 (col_numero_cuenta, Num (Fin 12345678) ''12345678.0'')],
         map_of [(col_email, Text ''ANA@x.org''), (col_numero_cuenta, Blank)],
         map_of [(col_email, Text ''JDOE@example.com ''), (col_numero_cuenta, IntV 99)]]\<rparr>"

definition demo_bad_accounts :: dataframe where
  "demo_bad_accounts =
     \<lparr>columns = [col_email, col_numero_cuenta],
      rows =
        [map_of [(col_email, Text ''jdoe@example.com''), (col_numero_cuenta, IntV 7)],
         map_of [(col_email, Text ''ana@x.org''), (col_numero_cuenta, Text ''no tengo'')]]\<rparr>"

section \<open>Auxiliary facts\<close>

lemma split_char_nonempty: "split_char sep s \<noteq> []"
  by (induction s) (auto split: list.splits)

lemma split_any_nonempty: "split_any P s \<noteq> []"
  by (induction s) (auto split: list.splits)

lemma split_char_replace:
  "split_char (CHR '','') (replace_char (CHR '';'') (CHR '','') s)
     = split_any (\<lambda>c. c = CHR '','' \<or> c = CHR '';'') s"
  by (induction s) (auto simp: replace_char_def split: list.splits)

lemma split_any_tokens: "\<forall>t \<in> set (split_any P s). \<forall>c \<in> set t. \<not> P c"
  by (induction s) (auto split: list.splits)

lemma split_any_concat: "concat (split_any P s) = filter (\<lambda>c. \<not> P c) s"
  by (induction s) (auto split: list.splits)

lemma split_any_length: "length (split_any P s) = Suc (length (filter P s))"
  by (induction s) (auto split: list.splits)

lemma split_char_hd: "split_char sep s = takeWhile (\<lambda>c. c \<noteq> sep) s # tl (split_char sep s)"
  by (induction s) (auto split: list.splits)

lemma local_part_eq: "local_part email = Inr (takeWhile (\<lambda>c. c \<noteq> CHR ''@'') email)"
  unfolding local_part_def using split_char_hd[of "CHR ''@''" email]
  by (auto split: list.splits)

lemma py_in_iff: "py_in sub s \<longleftrightarrow> (\<exists>ps ss. s = ps @ sub @ ss)"
proof (induction s)
  case Nil
  then show ?case by auto
next
  case (Cons c cs)
  show ?case
  proof
    assume "py_in sub (c # cs)"
    then consider "prefix sub (c # cs)" | "py_in sub cs" by auto
    then show "\<exists>ps ss. c # cs = ps @ sub @ ss"
    proof cases
      case 1
      then obtain ss where "c # cs = sub @ ss" by (auto simp: prefix_def)
      then have "c # cs = [] @ sub @ ss" by simp
      then show ?thesis by blast
    next
      case 2
      then obtain ps ss where "cs = ps @ sub @ ss" using Cons.IH by auto
      then have "c # cs = (c # ps) @ sub @ ss" by simp
      then show ?thesis by blast
    qed
  next
    assume "\<exists>ps ss. c # cs = ps @ sub @ ss"
    then obtain ps ss where e: "c # cs = ps @ sub @ ss" by auto
    show "py_in sub (c # cs)"
    proof (cases ps)
      case Nil
      then have "prefix sub (c # cs)" using e by (auto simp: prefix_def)
      then show ?thesis by simp
    next
      case (Cons p ps')
      then have "cs = ps' @ sub @ ss" using e by simp
      then have "py_in sub cs" using Cons.IH by blast
      then show ?thesis by simp
    qed
  qed
qed

lemma py_in_drop_front:
  assumes "sub \<noteq> []" "\<forall>c \<in> set sub. \<not> P c"
  shows "py_in sub (dropWhile P s) = py_in sub s"
proof (induction s)
  case Nil
  then show ?case by simp
next
  case (Cons c cs)
  show ?case
  proof (cases "P c")
    case True
    then have "\<not> prefix sub (c # cs)" using assms by (cases sub) auto
    then show ?thesis using True Cons by simp
  next
    case False
    then show ?thesis by simp
  qed
qed

lemma py_in_rev: "py_in (rev sub) (rev s) = py_in sub s"
proof -
  have "(\<exists>ps ss. rev s = ps @ rev sub @ ss) \<longleftrightarrow> (\<exists>ps ss. s = ps @ sub @ ss)"
  proof
    assume "\<exists>ps ss. rev s = ps @ rev sub @ ss"
    then obtain ps ss where "rev s = ps @ rev sub @ ss" by auto
    then have "rev (rev s) = rev (ps @ rev sub @ ss)" by simp
    then have "s = rev ss @ sub @ rev ps" by simp
    then show "\<exists>ps ss. s = ps @ sub @ ss" by blast
  next
    assume "\<exists>ps ss. s = ps @ sub @ ss"
    then obtain ps ss where "s = ps @ sub @ ss" by auto
    then have "rev s = rev ss @ rev sub @ rev ps" by simp
    then show "\<exists>ps ss. rev s = ps @ rev sub @ ss" by blast
  qed
  then show ?thesis by (simp add: py_in_iff)
qed

lemma py_in_strip:
  assumes "sub \<noteq> []" "\<forall>c \<in> set sub. \<not> is_space c"
  shows "py_in sub (strip s) = py_in sub s"
proof -
  have r: "rev sub \<noteq> []" "\<forall>c \<in> set (rev sub). \<not> is_space c" using assms by auto
  have "py_in sub (strip s) = py_in (rev sub) (dropWhile is_space (rev (dropWhile is_space s)))"
    unfolding strip_def using py_in_rev[of sub "rev (dropWhile is_space (rev (dropWhile is_space s)))"]
    by simp
  also have "\<dots> = py_in (rev sub) (rev (dropWhile is_space s))"
    using py_in_drop_front[OF r] by simp
  also have "\<dots> = py_in sub (dropWhile is_space s)" by (rule py_in_rev)
  also have "\<dots> = py_in sub s" using py_in_drop_front[OF assms] by simp
  finally show ?thesis .
qed

lemma lower_space: "is_space c \<Longrightarrow> lower_char c = c"
  by (auto simp: is_space_def lower_char_def Let_def)

lemma of_char_lt: "(of_char (c::char) :: nat) < 256"
  by (rule of_char_mod_256 [where ?'a = nat, THEN subst]) simp

lemma is_space_lower: "is_space (lower_char c) = is_space c"
proof -
  have b: "(of_char c :: nat) < 256" by (rule of_char_lt)
  show ?thesis
  proof (cases "(65 \<le> (of_char c :: nat) \<and> (of_char c :: nat) \<le> 90) \<or> (192 \<le> (of_char c :: nat) \<and> (of_char c :: nat) \<le> 214) \<or> (216 \<le> (of_char c :: nat) \<and> (of_char c :: nat) \<le> 222)")
    case True
    then have l: "lower_char c = char_of ((of_char c :: nat) + 32)"
      by (simp add: lower_char_def Let_def)
    have m: "((of_char c :: nat) + 32) mod 256 = of_char c + 32" using True by auto
    have "\<not> is_space c" using True by (auto simp: is_space_def Let_def)
    moreover have "\<not> is_space (lower_char c)"
      unfolding l is_space_def Let_def of_char_of m using True by auto
    ultimately show ?thesis by simp
  next
    case False
    then have "lower_char c = c" by (auto simp: lower_char_def Let_def)
    then show ?thesis by simp
  qed
qed

lemma lower_strip: "lower (strip s) = strip (lower s)"
proof -
  have c: "is_space \<circ> lower_char = is_space" by (rule ext) (simp add: is_space_lower)
  show ?thesis
    by (simp add: lower_def strip_def dropWhile_map rev_map c)
qed

lemma py_in_lower_strip:
  assumes "sub \<noteq> []" "\<forall>c \<in> set sub. \<not> is_space c"
  shows "py_in sub (lower (strip s)) = py_in sub (lower s)"
  by (simp add: lower_strip py_in_strip[OF assms])


lemmas col_defs = col_email_def col_numero_cuenta_def col_nombres_def col_apellido_paterno_def
  col_apellido_materno_def col_miembro_def col_tipo_registro_def col_nivel_academico_def
  col_sede_def col_generacion_def col_genero_def col_empresa_def col_puesto_def
  col_situacion_def col_max_grado_def col_max_grado_institucion_def col_max_grado_programa_def
  col_intereses_def col_experiencia_def col_estudias_def col_linkedin_def col_instagram_def
  col_twitter_def col_facebook_def col_telefono_def col_cv_def col_resume_def
  col_nacimiento_def col_marca_temporal_def col_whatsapp_def col_objetivos_def
  col_expectativas_def col_comentarios_def priority_col_def

lemma getitem_upd: "k \<noteq> k' \<Longrightarrow> getitem (r(k' \<mapsto> v)) k = getitem r k"
  by (simp add: getitem_def)

lemma row_get_upd: "k \<noteq> k' \<Longrightarrow> row_get (r(k' \<mapsto> v)) k = row_get r k"
  by (simp add: row_get_def)

lemma col_neq_email_norm:
  "col_email \<noteq> ''email_norm''" "col_numero_cuenta \<noteq> ''email_norm''"
  "col_nombres \<noteq> ''email_norm''" "col_apellido_paterno \<noteq> ''email_norm''"
  "col_apellido_materno \<noteq> ''email_norm''" "col_miembro \<noteq> ''email_norm''"
  "col_tipo_registro \<noteq> ''email_norm''" "col_nivel_academico \<noteq> ''email_norm''"
  "col_sede \<noteq> ''email_norm''" "col_generacion \<noteq> ''email_norm''"
  "col_genero \<noteq> ''email_norm''" "col_empresa \<noteq> ''email_norm''"
  "col_puesto \<noteq> ''email_norm''" "col_situacion \<noteq> ''email_norm''"
  "col_max_grado \<noteq> ''email_norm''" "col_max_grado_institucion \<noteq> ''email_norm''"
  "col_max_grado_programa \<noteq> ''email_norm''" "col_intereses \<noteq> ''email_norm''"
  "col_experiencia \<noteq> ''email_norm''" "col_estudias \<noteq> ''email_norm''"
  "col_linkedin \<noteq> ''email_norm''" "col_instagram \<noteq> ''email_norm''"
  "col_twitter \<noteq> ''email_norm''" "col_facebook \<noteq> ''email_norm''"
  "col_telefono \<noteq> ''email_norm''" "col_cv \<noteq> ''email_norm''"
  "col_resume \<noteq> ''email_norm''" "col_nacimiento \<noteq> ''email_norm''"
  "col_marca_temporal \<noteq> ''email_norm''" "col_whatsapp \<noteq> ''email_norm''"
  "col_objetivos \<noteq> ''email_norm''" "col_expectativas \<noteq> ''email_norm''"
  "col_comentarios \<noteq> ''email_norm''" "priority_col x \<noteq> ''email_norm''"
  by (simp_all add: col_defs)

lemma build_record_upd:
  "build_record E am (r(''email_norm'' \<mapsto> v)) = build_record E am r"
  unfolding build_record_def
  by (simp only: getitem_upd[OF col_neq_email_norm(1)] getitem_upd[OF col_neq_email_norm(3)]
      getitem_upd[OF col_neq_email_norm(4)] getitem_upd[OF col_neq_email_norm(5)]
      row_get_upd[OF col_neq_email_norm(6)] row_get_upd[OF col_neq_email_norm(7)]
      row_get_upd[OF col_neq_email_norm(8)] row_get_upd[OF col_neq_email_norm(9)]
      row_get_upd[OF col_neq_email_norm(10)] row_get_upd[OF col_neq_email_norm(11)]
      row_get_upd[OF col_neq_email_norm(12)] row_get_upd[OF col_neq_email_norm(13)]
      row_get_upd[OF col_neq_email_norm(14)] row_get_upd[OF col_neq_email_norm(15)]
      row_get_upd[OF col_neq_email_norm(16)] row_get_upd[OF col_neq_email_norm(17)]
      row_get_upd[OF col_neq_email_norm(18)] row_get_upd[OF col_neq_email_norm(19)]
      row_get_upd[OF col_neq_email_norm(20)] row_get_upd[OF col_neq_email_norm(21)]
      row_get_upd[OF col_neq_email_norm(22)] row_get_upd[OF col_neq_email_norm(23)]
      row_get_upd[OF col_neq_email_norm(24)] row_get_upd[OF col_neq_email_norm(25)]
      row_get_upd[OF col_neq_email_norm(26)] row_get_upd[OF col_neq_email_norm(27)]
      row_get_upd[OF col_neq_email_norm(28)] row_get_upd[OF col_neq_email_norm(29)]
      row_get_upd[OF col_neq_email_norm(30)] row_get_upd[OF col_neq_email_norm(31)]
      row_get_upd[OF col_neq_email_norm(32)] row_get_upd[OF col_neq_email_norm(33)]
      row_get_upd[OF col_neq_email_norm(34)])

lemma build_records_iff:
  "build_records E am rs = Inr recs
     \<longleftrightarrow> list_all2 (\<lambda>r rcd. build_record E am r = Inr rcd) rs recs"
proof (induction rs arbitrary: recs)
  case Nil
  then show ?case by auto
next
  case (Cons r rs)
  show ?case
  proof (cases "build_record E am r")
    case (Inl e)
    then show ?thesis by (auto simp: bind_err_def list_all2_Cons1)
  next
    case (Inr x)
    show ?thesis
    proof (cases "build_records E am rs")
      case (Inl e)
      with Inr Cons.IH show ?thesis by (auto simp: bind_err_def list_all2_Cons1)
    next
      case r2: (Inr xs)
      with Inr Cons.IH[of xs] Cons.IH show ?thesis
        by (auto simp: bind_err_def list_all2_Cons1)
    qed
  qed
qed


lemma bind_err_Inr_iff: "bind_err m f = Inr y \<longleftrightarrow> (\<exists>x. m = Inr x \<and> f x = Inr y)"
  by (cases m) (auto simp: bind_err_def)

lemma if_Inr_eq: "((if c then Inr a else Inr b) = Inr x) = (x = (if c then a else b))"
  by auto

lemma getitem_Inr_iff: "getitem r k = Inr c \<longleftrightarrow> r k = Some c"
  by (simp add: getitem_def split: option.splits)

lemma if_local_part_eq:
  "((if c then Inr a else local_part e) = Inr x)
     = (x = (if c then a else takeWhile (\<lambda>c. c \<noteq> CHR ''@'') e))"
  by (auto simp: local_part_eq)

lemma case_cell_Inr_iff:
  "((case c of Blank \<Rightarrow> Inl e1 | Text s \<Rightarrow> f s | Num x t \<Rightarrow> Inl e2 | IntV n \<Rightarrow> Inl e3
      | BoolV b \<Rightarrow> Inl e4 | DateV d \<Rightarrow> Inl e5) = Inr y)
     = (\<exists>s. c = Text s \<and> f s = Inr y)"
  by (cases c) auto

lemma build_record_fields:
  assumes "build_record E am r = Inr rcd"
  shows "\<exists>s nombres paterno materno.
     r col_email = Some (Text s) \<and> r col_nombres = Some nombres
     \<and> r col_apellido_paterno = Some paterno \<and> r col_apellido_materno = Some materno
     \<and> map_of rcd ''email'' = Some (JStr (strip s))
     \<and> map_of rcd ''displayName'' = Some (JStr
          (if join '' '' (filter_None [safe_str nombres, safe_str paterno]) \<noteq> []
           then join '' '' (filter_None [safe_str nombres, safe_str paterno])
           else takeWhile (\<lambda>c. c \<noteq> CHR ''@'') (strip s)))
     \<and> map_of rcd ''firstName'' = Some (jopt (safe_str nombres))
     \<and> map_of rcd ''lastName'' = Some (JStr (join '' '' (filter_None [safe_str paterno, safe_str materno])))
     \<and> map_of rcd ''role'' = Some (JStr (if code_member r then ''member'' else ''collaborator''))
     \<and> map_of rcd ''registrationType'' = Some (JStr (if code_member r then ''member'' else ''collaborator''))
     \<and> map_of rcd ''verificationStatus'' = Some (JStr (if code_member r then ''approved'' else ''none''))
     \<and> map_of rcd ''lifecycleStatus'' = Some (JStr (if code_member r then ''active'' else ''collaborator''))
     \<and> map_of rcd ''numeroCuenta'' = Some (jopt (am (Text (lower (strip s)))))"
  using assms unfolding build_record_def code_member_def
  by (clarsimp simp: bind_err_Inr_iff getitem_Inr_iff if_local_part_eq Let_def update_conv'
      case_cell_Inr_iff split del: if_split)

lemma add_email_norm_Inr:
  assumes "add_email_norm df = Inr df1"
  shows "col_email \<in> set (columns df)
    \<and> rows df1 = map (\<lambda>r. r(''email_norm'' \<mapsto> str_strip_lower (row_get r col_email))) (rows df)"
  using assms by (auto simp: add_email_norm_def split: if_splits)

lemma kept_upd:
  "(\<not> isin (row_get (r(''email_norm'' \<mapsto> str_strip_lower (row_get r col_email))) ''email_norm'')
        EXCLUDED_EMAILS)
   = (case normalized_email r of None \<Rightarrow> True | Some e \<Rightarrow> e \<notin> EXCLUDED_EMAILS)"
  by (cases "row_get r col_email")
     (auto simp: row_get_def isin_def str_strip_lower_def normalized_email_def)

lemma exclude_rows:
  assumes "add_email_norm M = Inr M1"
  shows "rows (exclude M1)
     = map (\<lambda>r. r(''email_norm'' \<mapsto> str_strip_lower (row_get r col_email))) (surviving M)"
proof -
  have "rows M1 = map (\<lambda>r. r(''email_norm'' \<mapsto> str_strip_lower (row_get r col_email))) (rows M)"
    using add_email_norm_Inr[OF assms] by simp
  then show ?thesis
    unfolding exclude_def surviving_def
    by (simp add: filter_map o_def kept_upd)
qed

lemma main_Inr:
  assumes "main E M A = Inr d"
  shows "\<exists>M1 A1 am. add_email_norm M = Inr M1 \<and> add_email_norm A = Inr A1
     \<and> account_loop Map.empty (rows A1) = Inr am
     \<and> list_all2 (\<lambda>r rcd. build_record E am r = Inr rcd) (surviving M) (members d)
     \<and> totalMembers d = length (members d)
     \<and> memberCount d = length (filter (has_role ''member'') (members d))
     \<and> collaboratorCount d = length (filter (has_role ''collaborator'') (members d))
     \<and> excludedEmails d = EXCLUDED_EMAILS"
proof -
  from assms obtain M1 A1 am recs where
    m: "add_email_norm M = Inr M1" and a: "add_email_norm A = Inr A1"
    and l: "account_loop Map.empty (rows A1) = Inr am"
    and b: "build_records E am (rows (exclude M1)) = Inr recs"
    and d: "d = \<lparr>generatedAt = now_iso E, totalMembers = length recs,
          memberCount = length (filter (has_role ''member'') recs),
          collaboratorCount = length (filter (has_role ''collaborator'') recs),
          excludedEmails = EXCLUDED_EMAILS, members = recs\<rparr>"
    unfolding main_def by (auto simp: bind_err_Inr_iff Let_def)
  have "list_all2 (\<lambda>r rcd. build_record E am r = Inr rcd) (surviving M) recs"
    using b unfolding exclude_rows[OF m] build_records_iff
    by (simp add: list_all2_map1 build_record_upd)
  then show ?thesis using m a l d by simp
qed

lemma code_member_eq: "code_member r = is_member_row r"
proof -
  define s where "s = py_str (row_get r col_tipo_registro)"
  have m: "py_in ''miembro'' (lower (strip s)) = py_in ''miembro'' (lower s)"
    by (rule py_in_lower_strip) (simp_all add: is_space_def)
  have e: "py_in ''egresado'' (lower (strip s)) = py_in ''egresado'' (lower s)"
    by (rule py_in_lower_strip) (simp_all add: is_space_def)
  have n: "\<not> py_in ''miembro'' (lower [])" "\<not> py_in ''egresado'' (lower [])"
    by (simp_all add: lower_def)
  show ?thesis
  proof (cases "strip s = []")
    case True
    then have "\<not> py_in ''miembro'' (lower s)" "\<not> py_in ''egresado'' (lower s)"
      using m e n by simp_all
    then show ?thesis
      unfolding code_member_def is_member_row_def safe_str_def s_def [symmetric]
      using True n by (simp add: Let_def)
  next
    case False
    then show ?thesis
      unfolding code_member_def is_member_row_def safe_str_def s_def [symmetric]
      using m e n by (auto simp: Let_def notna_def)
  qed
qed

lemma count_roles:
  assumes "\<forall>x \<in> set xs. P x \<noteq> Q x"
  shows "length (filter P xs) + length (filter Q xs) = length xs"
  using assms by (induction xs) auto

lemma demo_main_ok: "\<not> isl (main demo_env demo_members demo_accounts)"
  by code_simp

lemma demo_main_Inr:
  "main demo_env demo_members demo_accounts = Inr (projr (main demo_env demo_members demo_accounts))"
  using demo_main_ok by simp

lemma role_cases:
  assumes "build_record E am r = Inr rcd"
  shows "has_role ''member'' rcd \<noteq> has_role ''collaborator'' rcd"
proof -
  from build_record_fields[OF assms]
  have "map_of rcd ''role'' = Some (JStr (if code_member r then ''member'' else ''collaborator''))"
    by blast
  then show ?thesis by (cases "code_member r") (simp_all add: has_role_def)
qed

lemma build_record_class:
  assumes "build_record E am r = Inr rcd"
  shows "classification rcd = (if is_member_row r then member_class else collaborator_class)"
  using build_record_fields[OF assms]
  by (auto simp: classification_def member_class_def collaborator_class_def code_member_eq)

lemma list_all2_set2:
  assumes "list_all2 P xs ys" "y \<in> set ys"
  shows "\<exists>x \<in> set xs. P x y"
proof -
  from assms obtain i where i: "i < length ys" "y = ys ! i"
    by (auto simp: in_set_conv_nth)
  with assms(1) have "xs ! i \<in> set xs" "P (xs ! i) y"
    by (auto simp: list_all2_conv_all_nth)
  then show ?thesis by blast
qed

lemma list_all2_mono_set:
  assumes "list_all2 P xs ys" "\<And>x y. x \<in> set xs \<Longrightarrow> P x y \<Longrightarrow> Q x y"
  shows "list_all2 Q xs ys"
  using assms by (auto simp: list_all2_conv_all_nth)

lemma build_record_email:
  assumes "build_record E am r = Inr rcd"
  shows "\<exists>s. row_get r col_email = Text s \<and> map_of rcd ''email'' = Some (JStr (strip s))"
  using build_record_fields[OF assms] by (auto simp: row_get_def)

lemma safe_str_nonempty: "safe_str c = Some t \<Longrightarrow> t \<noteq> []"
  by (auto simp: safe_str_def split: if_splits)

lemma filter_None_safe_str:
  "filter_None [safe_str a, safe_str b] = present_values [a, b]"
  by (cases "safe_str a"; cases "safe_str b")
     (auto simp: filter_None_def present_values_def List.map_filter_simps
        dest: safe_str_nonempty)

lemma join_present_values:
  "(join '' '' (present_values [a, b]) = []) = (present_values [a, b] = [])"
  by (cases "safe_str a"; cases "safe_str b")
     (auto simp: present_values_def List.map_filter_simps dest: safe_str_nonempty)

lemma build_record_display_name:
  assumes "build_record E am r = Inr rcd"
  shows "map_of rcd ''displayName'' = Some (JStr (spec_display_name r))"
proof -
  from build_record_fields[OF assms] obtain s nombres paterno where
    e: "r col_email = Some (Text s)" and n: "r col_nombres = Some nombres"
    and p: "r col_apellido_paterno = Some paterno"
    and d: "map_of rcd ''displayName'' = Some (JStr
          (if join '' '' (filter_None [safe_str nombres, safe_str paterno]) \<noteq> []
           then join '' '' (filter_None [safe_str nombres, safe_str paterno])
           else takeWhile (\<lambda>c. c \<noteq> CHR ''@'') (strip s)))"
    by blast
  have "row_get r col_email = Text s" "row_get r col_nombres = nombres"
    "row_get r col_apellido_paterno = paterno"
    using e n p by (simp_all add: row_get_def)
  then show ?thesis
    unfolding d spec_display_name_def filter_None_safe_str
    by (simp add: Let_def join_present_values)
qed


lemma find_snoc:
  "List.find P (xs @ [x])
     = (case List.find P xs of None \<Rightarrow> (if P x then Some x else None) | Some y \<Rightarrow> Some y)"
  by (induction xs) auto

lemma find_map_comp: "List.find P (map f xs) = map_option f (List.find (\<lambda>x. P (f x)) xs)"
  by (induction xs) auto

lemma account_loop_lookup:
  assumes "account_loop m rs = Inr m'"
  shows "m' k = (case List.find (\<lambda>r. r ''email_norm'' = Some k
                                  \<and> notna (row_get r col_numero_cuenta)) (rev rs) of
                   None \<Rightarrow> m k
                 | Some r \<Rightarrow> map_option str_int (int_value (row_get r col_numero_cuenta)))"
  using assms
proof (induction rs arbitrary: m)
  case Nil
  then show ?case by simp
next
  case (Cons r rs)
  from Cons.prems obtain email where e: "r ''email_norm'' = Some email"
    by (auto simp: bind_err_Inr_iff getitem_Inr_iff)
  show ?case
  proof (cases "notna (row_get r col_numero_cuenta)")
    case True
    with Cons.prems e obtain n where
      n: "py_int (row_get r col_numero_cuenta) = Inr n"
      and l: "account_loop (m(email \<mapsto> str_int n)) rs = Inr m'"
      by (auto simp: bind_err_Inr_iff getitem_Inr_iff Let_def)
    show ?thesis
      using Cons.IH[OF l] e True n
      by (auto simp: find_snoc int_value_def split: option.splits)
  next
    case False
    with Cons.prems e have l: "account_loop m rs = Inr m'"
      by (auto simp: bind_err_Inr_iff getitem_Inr_iff Let_def)
    show ?thesis
      using Cons.IH[OF l] False
      by (auto simp: find_snoc split: option.splits)
  qed
qed

lemma account_loop_ints:
  assumes "account_loop m rs = Inr m'" "r \<in> set rs" "notna (row_get r col_numero_cuenta)"
  shows "int_value (row_get r col_numero_cuenta) \<noteq> None"
  using assms
proof (induction rs arbitrary: m)
  case Nil
  then show ?case by simp
next
  case (Cons x rs)
  from Cons.prems(1) obtain email where e: "x ''email_norm'' = Some email"
    by (auto simp: bind_err_Inr_iff getitem_Inr_iff)
  show ?case
  proof (cases "notna (row_get x col_numero_cuenta)")
    case True
    with Cons.prems(1) e obtain n where
      n: "py_int (row_get x col_numero_cuenta) = Inr n"
      and l: "account_loop (m(email \<mapsto> str_int n)) rs = Inr m'"
      by (auto simp: bind_err_Inr_iff getitem_Inr_iff Let_def)
    show ?thesis
    proof (cases "r = x")
      case True
      then show ?thesis using n by (simp add: int_value_def)
    next
      case False
      then show ?thesis using Cons.IH[OF l] Cons.prems(2,3) by simp
    qed
  next
    case False
    with Cons.prems(1) e have l: "account_loop m rs = Inr m'"
      by (auto simp: bind_err_Inr_iff getitem_Inr_iff Let_def)
    from False Cons.prems(2,3) have "r \<in> set rs" by auto
    then show ?thesis using Cons.IH[OF l] Cons.prems(3) by simp
  qed
qed

lemma upd_email_norm_key:
  "((r(''email_norm'' \<mapsto> str_strip_lower (row_get r col_email))) ''email_norm'' = Some (Text e))
     = (normalized_email r = Some e)"
  by (cases "row_get r col_email") (auto simp: str_strip_lower_def normalized_email_def)

lemma demo_accounts_ok:
  "\<not> isl (add_email_norm demo_accounts)"
  "\<not> isl (account_loop Map.empty (rows (projr (add_email_norm demo_accounts))))"
  by code_simp+

lemma account_loop_bad:
  assumes "r \<in> set rs" "notna (row_get r col_numero_cuenta)"
    "py_int (row_get r col_numero_cuenta) = Inl e"
  shows "isl (account_loop m rs)"
proof (cases "account_loop m rs")
  case (Inl a)
  then show ?thesis by simp
next
  case (Inr m')
  from account_loop_ints[OF Inr assms(1,2)] assms(3) show ?thesis
    by (simp add: int_value_def)
qed

lemma trunc_eq: "(if 0 \<le> q then \<lfloor>q\<rfloor> else \<lceil>q\<rceil>) = truncate_toward_zero (q::rat)"
  by (auto simp: truncate_toward_zero_def ceiling_def)

section \<open>The properties\<close>

subsection \<open>Field normalizers\<close>

text \<open>
  C5: for every cell, \<open>parse_skills\<close> gives the empty list on a blank cell, and otherwise
  the tokens obtained by splitting the cell text at every comma and semicolon, trimming
  each token and dropping the tokens that are empty after trimming, in their original
  order and with duplicates kept; \<open>parse_skills "Python; SQL, , R"\<close> is
  \<open>["Python", "SQL", "R"]\<close>.
\<close>

theorem parse_skills_spec:
  "parse_skills raw =
     (if isna raw then []
      else filter (\<lambda>t. t \<noteq> [])
             (map strip (split_any (\<lambda>c. c = CHR '','' \<or> c = CHR '';'') (py_str raw))))
   \<and> parse_skills (Text ''Python; SQL, , R'') = [''Python'', ''SQL'', ''R'']"
proof (rule conjI)
  show "parse_skills raw =
     (if isna raw then []
      else filter (\<lambda>t. t \<noteq> [])
             (map strip (split_any (\<lambda>c. c = CHR '','' \<or> c = CHR '';'') (py_str raw))))"
    by (simp add: parse_skills_def split_char_replace)
  show "parse_skills (Text ''Python; SQL, , R'') = [''Python'', ''SQL'', ''R'']"
    by code_simp
qed

text \<open>
  C4: the normalizers never raise. \<open>parse_skills\<close>, \<open>normalize_academic_level\<close>,
  \<open>safe_str\<close> and \<open>to_iso\<close> have no raising path. \<open>normalize_generation\<close> catches
  \<^verbatim>\<open>ValueError\<close> and \<^verbatim>\<open>TypeError\<close> only: on a cell holding an infinity, as text or
  as a float, \<^verbatim>\<open>int\<close> raises \<^verbatim>\<open>OverflowError\<close>, which leaves the function.
\<close>

theorem normalize_generation_overflow:
  "normalize_generation (Text ''inf'') = Inl OverflowError
   \<and> normalize_generation (Num PInf ''inf'') = Inl OverflowError"
  by code_simp

subsection \<open>The output document\<close>

text \<open>
  C2: whenever a run emits its document, \<open>totalMembers\<close> is the length of \<open>members\<close> and
  the sum of \<open>memberCount\<close> and \<open>collaboratorCount\<close>, the numbers of records whose role
  is member and collaborator.
\<close>

theorem output_counts:
  assumes "main E M A = Inr d"
  shows "totalMembers d = memberCount d + collaboratorCount d
     \<and> totalMembers d = length (members d)
     \<and> memberCount d = length (filter (has_role ''member'') (members d))
     \<and> collaboratorCount d = length (filter (has_role ''collaborator'') (members d))"
proof -
  from main_Inr[OF assms] obtain am where
    l: "list_all2 (\<lambda>r rcd. build_record E am r = Inr rcd) (surviving M) (members d)"
    and t: "totalMembers d = length (members d)"
    and m: "memberCount d = length (filter (has_role ''member'') (members d))"
    and c: "collaboratorCount d = length (filter (has_role ''collaborator'') (members d))"
    by blast
  have "\<forall>rcd \<in> set (members d). has_role ''member'' rcd \<noteq> has_role ''collaborator'' rcd"
  proof
    fix rcd assume "rcd \<in> set (members d)"
    then obtain r where "build_record E am r = Inr rcd"
      using l by (auto simp: list_all2_conv_all_nth in_set_conv_nth)
    then show "has_role ''member'' rcd \<noteq> has_role ''collaborator'' rcd" by (rule role_cases)
  qed
  then have "length (filter (has_role ''member'') (members d))
      + length (filter (has_role ''collaborator'') (members d)) = length (members d)"
    by (rule count_roles)
  then show ?thesis using t m c by simp
qed

theorem output_counts_witness:
  "main demo_env demo_members demo_accounts
     = Inr (projr (main demo_env demo_members demo_accounts))
   \<and> totalMembers (projr (main demo_env demo_members demo_accounts))
       = memberCount (projr (main demo_env demo_members demo_accounts))
         + collaboratorCount (projr (main demo_env demo_members demo_accounts))
   \<and> totalMembers (projr (main demo_env demo_members demo_accounts))
       = length (members (projr (main demo_env demo_members demo_accounts)))
   \<and> totalMembers (projr (main demo_env demo_members demo_accounts)) = 2"
proof -
  have v: "totalMembers (projr (main demo_env demo_members demo_accounts)) = 2"
    by code_simp
  show ?thesis
    using demo_main_Inr output_counts[OF demo_main_Inr] v by blast
qed

subsection \<open>Classification\<close>

text \<open>
  C1: a member row is classified member exactly when its membership flag cell is not
  absent or the text of its registration type, lowercased, contains "miembro" or
  "egresado", and collaborator otherwise; the decision fixes role, registrationType,
  verificationStatus and lifecycleStatus together, as (member, member, approved, active)
  or (collaborator, collaborator, none, collaborator), and no output record carries any
  other combination.
\<close>

theorem classification_rule:
  assumes "main E M A = Inr d"
  shows "list_all2 (\<lambda>r rcd. classification rcd
             = (if is_member_row r then member_class else collaborator_class))
           (surviving M) (members d)
     \<and> (\<forall>rcd \<in> set (members d).
           classification rcd = member_class \<or> classification rcd = collaborator_class)"
proof -
  from main_Inr[OF assms] obtain am where
    l: "list_all2 (\<lambda>r rcd. build_record E am r = Inr rcd) (surviving M) (members d)"
    by blast
  have a: "list_all2 (\<lambda>r rcd. classification rcd
             = (if is_member_row r then member_class else collaborator_class))
           (surviving M) (members d)"
    using l by (rule list_all2_mono_set) (rule build_record_class)
  have "classification rcd = member_class \<or> classification rcd = collaborator_class"
    if "rcd \<in> set (members d)" for rcd
    using list_all2_set2[OF a that] by (auto split: if_splits)
  with a show ?thesis by blast
qed

theorem classification_rule_witness:
  "main demo_env demo_members demo_accounts
     = Inr (projr (main demo_env demo_members demo_accounts))
   \<and> list_all2 (\<lambda>r rcd. classification rcd
             = (if is_member_row r then member_class else collaborator_class))
        (surviving demo_members) (members (projr (main demo_env demo_members demo_accounts)))
   \<and> map classification (members (projr (main demo_env demo_members demo_accounts)))
       = [member_class, collaborator_class]
   \<and> map is_member_row (surviving demo_members) = [True, False]"
proof -
  have v: "map classification (members (projr (main demo_env demo_members demo_accounts)))
       = [member_class, collaborator_class]"
    by code_simp
  have w: "map is_member_row (surviving demo_members) = [True, False]"
    by code_simp
  show ?thesis
    using demo_main_Inr classification_rule[OF demo_main_Inr] v w by blast
qed

subsection \<open>Exclusion\<close>

text \<open>
  C3: no record of the output has an email that, lowercased, is in the excluded set; the
  exclusion step keeps, in their order, exactly the member rows whose normalized
  (trimmed, lowercased) email is not in that set, and the records are built from these
  rows one by one.
\<close>

theorem exclusion_filter:
  assumes "main E M A = Inr d"
  shows "(\<forall>rcd \<in> set (members d).
            \<exists>e. map_of rcd ''email'' = Some (JStr e) \<and> lower e \<notin> EXCLUDED_EMAILS)
     \<and> (\<exists>M1. add_email_norm M = Inr M1
           \<and> rows (exclude M1)
               = map (\<lambda>r. r(''email_norm'' \<mapsto> str_strip_lower (row_get r col_email)))
                   (filter (\<lambda>r. case normalized_email r of None \<Rightarrow> True
                                 | Some e \<Rightarrow> e \<notin> EXCLUDED_EMAILS) (rows M))
           \<and> columns (exclude M1) = columns M1)
     \<and> list_all2 (\<lambda>r rcd. \<exists>s. row_get r col_email = Text s
                            \<and> map_of rcd ''email'' = Some (JStr (strip s)))
         (filter (\<lambda>r. case normalized_email r of None \<Rightarrow> True
                       | Some e \<Rightarrow> e \<notin> EXCLUDED_EMAILS) (rows M))
         (members d)"
proof -
  from main_Inr[OF assms] obtain M1 am where
    m: "add_email_norm M = Inr M1" and
    l: "list_all2 (\<lambda>r rcd. build_record E am r = Inr rcd) (surviving M) (members d)"
    by blast
  have c: "list_all2 (\<lambda>r rcd. \<exists>s. row_get r col_email = Text s
                            \<and> map_of rcd ''email'' = Some (JStr (strip s)))
         (surviving M) (members d)"
    using l by (rule list_all2_mono_set) (rule build_record_email)
  have a: "\<exists>e. map_of rcd ''email'' = Some (JStr e) \<and> lower e \<notin> EXCLUDED_EMAILS"
    if "rcd \<in> set (members d)" for rcd
  proof -
    from list_all2_set2[OF c that] obtain r s where
      r: "r \<in> set (surviving M)" and s: "row_get r col_email = Text s"
      and e: "map_of rcd ''email'' = Some (JStr (strip s))" by blast
    from r s have "lower (strip s) \<notin> EXCLUDED_EMAILS"
      by (simp add: surviving_def normalized_email_def)
    with e show ?thesis by blast
  qed
  have b: "rows (exclude M1)
      = map (\<lambda>r. r(''email_norm'' \<mapsto> str_strip_lower (row_get r col_email))) (surviving M)"
    by (rule exclude_rows[OF m])
  have "columns (exclude M1) = columns M1" by (simp add: exclude_def)
  with a b c m show ?thesis unfolding surviving_def by blast
qed

theorem exclusion_filter_witness:
  "main demo_env demo_members demo_accounts
     = Inr (projr (main demo_env demo_members demo_accounts))
   \<and> list_all2 (\<lambda>r rcd. \<exists>s. row_get r col_email = Text s
                            \<and> map_of rcd ''email'' = Some (JStr (strip s)))
         (filter (\<lambda>r. case normalized_email r of None \<Rightarrow> True
                       | Some e \<Rightarrow> e \<notin> EXCLUDED_EMAILS) (rows demo_members))
         (members (projr (main demo_env demo_members demo_accounts)))
   \<and> map (\<lambda>rcd. map_of rcd ''email'') (members (projr (main demo_env demo_members demo_accounts)))
       = [Some (JStr ''jdoe@example.com''), Some (JStr ''Ana@x.org'')]
   \<and> map normalized_email (rows demo_members)
       = [Some ''jdoe@example.com'', Some ''prueba@secid.mx'', Some ''ana@x.org'']"
proof -
  have v: "map (\<lambda>rcd. map_of rcd ''email'') (members (projr (main demo_env demo_members demo_accounts)))
       = [Some (JStr ''jdoe@example.com''), Some (JStr ''Ana@x.org'')]"
    by code_simp
  have w: "map normalized_email (rows demo_members)
       = [Some ''jdoe@example.com'', Some ''prueba@secid.mx'', Some ''ana@x.org'']"
    by code_simp
  show ?thesis
    using demo_main_Inr exclusion_filter[OF demo_main_Inr] v w by blast
qed

subsection \<open>Names\<close>

text \<open>
  C8: for every surviving member row, displayName is the non-absent values of the
  first-name and paternal-surname cells joined by a space, and, when both are blank, the
  part of the trimmed email before the first "@"; a row with both name cells blank and
  the email jdoe@example.com gets the displayName "jdoe".
\<close>

theorem display_name_rule:
  assumes "main E M A = Inr d"
  shows "list_all2 (\<lambda>r rcd. map_of rcd ''displayName'' = Some (JStr (spec_display_name r)))
           (surviving M) (members d)
     \<and> spec_display_name (map_of [(col_email, Text ''jdoe@example.com''), (col_nombres, Blank),
           (col_apellido_paterno, Blank)]) = ''jdoe''"
proof -
  from main_Inr[OF assms] obtain am where
    l: "list_all2 (\<lambda>r rcd. build_record E am r = Inr rcd) (surviving M) (members d)"
    by blast
  have a: "list_all2 (\<lambda>r rcd. map_of rcd ''displayName'' = Some (JStr (spec_display_name r)))
           (surviving M) (members d)"
    using l by (rule list_all2_mono_set) (rule build_record_display_name)
  have b: "spec_display_name (map_of [(col_email, Text ''jdoe@example.com''),
      (col_nombres, Blank), (col_apellido_paterno, Blank)]) = ''jdoe''"
    by code_simp
  from a b show ?thesis by blast
qed

theorem display_name_rule_witness:
  "main demo_env demo_members demo_accounts
     = Inr (projr (main demo_env demo_members demo_accounts))
   \<and> list_all2 (\<lambda>r rcd. map_of rcd ''displayName'' = Some (JStr (spec_display_name r)))
        (surviving demo_members) (members (projr (main demo_env demo_members demo_accounts)))
   \<and> map (\<lambda>rcd. map_of rcd ''displayName'')
        (members (projr (main demo_env demo_members demo_accounts)))
       = [Some (JStr ''jdoe''), Some (JStr ''Ana Paz'')]"
proof -
  have v: "map (\<lambda>rcd. map_of rcd ''displayName'')
        (members (projr (main demo_env demo_members demo_accounts)))
       = [Some (JStr ''jdoe''), Some (JStr ''Ana Paz'')]"
    by code_simp
  show ?thesis
    using demo_main_Inr display_name_rule[OF demo_main_Inr] v by blast
qed



subsection \<open>The account joiner\<close>

text \<open>
  C7: the account map sends a normalized email to the decimal text of the integer account
  number of the last account row that has this normalized email and a non-blank account
  number; rows with a blank account number create no entry, and an email for which every
  row is blank has none.
\<close>

theorem account_map_rule:
  assumes "add_email_norm A = Inr A1" "account_loop Map.empty (rows A1) = Inr am"
  shows "am (Text e)
       = (case List.find (\<lambda>r. normalized_email r = Some e
                              \<and> notna (row_get r col_numero_cuenta)) (rev (rows A)) of
            None \<Rightarrow> None
          | Some r \<Rightarrow> map_option str_int (int_value (row_get r col_numero_cuenta)))
     \<and> (\<forall>r \<in> set (rows A). notna (row_get r col_numero_cuenta)
           \<longrightarrow> int_value (row_get r col_numero_cuenta) \<noteq> None)"
proof -
  let ?upd = "\<lambda>r. r(''email_norm'' \<mapsto> str_strip_lower (row_get r col_email))"
  have g: "row_get (?upd r) col_numero_cuenta = row_get r col_numero_cuenta" for r
    by (rule row_get_upd) (rule col_neq_email_norm(2))
  have rs: "rows A1 = map ?upd (rows A)"
    using add_email_norm_Inr[OF assms(1)] by simp
  have "am (Text e)
       = (case List.find (\<lambda>r. r ''email_norm'' = Some (Text e)
                                  \<and> notna (row_get r col_numero_cuenta)) (rev (rows A1)) of
            None \<Rightarrow> None
          | Some r \<Rightarrow> map_option str_int (int_value (row_get r col_numero_cuenta)))"
    using account_loop_lookup[OF assms(2), of "Text e"] by simp
  then have a: "am (Text e)
       = (case List.find (\<lambda>r. normalized_email r = Some e
                              \<and> notna (row_get r col_numero_cuenta)) (rev (rows A)) of
            None \<Rightarrow> None
          | Some r \<Rightarrow> map_option str_int (int_value (row_get r col_numero_cuenta)))"
    unfolding rs rev_map find_map_comp upd_email_norm_key g
    by (simp add: g split: option.splits)
  have b: "int_value (row_get r col_numero_cuenta) \<noteq> None"
    if "r \<in> set (rows A)" "notna (row_get r col_numero_cuenta)" for r
  proof -
    have "?upd r \<in> set (rows A1)" using that(1) rs by simp
    from account_loop_ints[OF assms(2) this] that(2) show ?thesis by (simp add: g)
  qed
  from a b show ?thesis by blast
qed

theorem account_map_rule_witness:
  "add_email_norm demo_accounts = Inr (projr (add_email_norm demo_accounts))
   \<and> account_loop Map.empty (rows (projr (add_email_norm demo_accounts)))
       = Inr (projr (account_loop Map.empty (rows (projr (add_email_norm demo_accounts)))))
   \<and> projr (account_loop Map.empty (rows (projr (add_email_norm demo_accounts))))
        (Text ''jdoe@example.com'') = Some ''99''
   \<and> projr (account_loop Map.empty (rows (projr (add_email_norm demo_accounts))))
        (Text ''ana@x.org'') = None"
proof -
  have h1: "add_email_norm demo_accounts = Inr (projr (add_email_norm demo_accounts))"
    using demo_accounts_ok(1) by simp
  have h2: "account_loop Map.empty (rows (projr (add_email_norm demo_accounts)))
       = Inr (projr (account_loop Map.empty (rows (projr (add_email_norm demo_accounts)))))"
    using demo_accounts_ok(2) by simp
  have v1: "(case List.find (\<lambda>r. normalized_email r = Some ''jdoe@example.com''
                              \<and> notna (row_get r col_numero_cuenta)) (rev (rows demo_accounts)) of
            None \<Rightarrow> None
          | Some r \<Rightarrow> map_option str_int (int_value (row_get r col_numero_cuenta))) = Some ''99''"
    by code_simp
  have v2: "(case List.find (\<lambda>r. normalized_email r = Some ''ana@x.org''
                              \<and> notna (row_get r col_numero_cuenta)) (rev (rows demo_accounts)) of
            None \<Rightarrow> None
          | Some r \<Rightarrow> map_option str_int (int_value (row_get r col_numero_cuenta))) = None"
    by code_simp
  show ?thesis
    using h1 h2 account_map_rule[OF h1 h2, of "''jdoe@example.com''"]
      account_map_rule[OF h1 h2, of "''ana@x.org''"] v1 v2
    by simp
qed

text \<open>
  C10: an account row whose account-number cell is not blank and is not coercible to an
  integer (arbitrary text, for example) makes the joiner raise; the error is not caught,
  the run aborts and no document is written. Only blank cells are skipped.
\<close>

theorem bad_account_number_aborts:
  assumes "r \<in> set (rows A)" "notna (row_get r col_numero_cuenta)"
    "py_int (row_get r col_numero_cuenta) = Inl e"
  shows "isl (main E M A)"
proof (cases "main E M A")
  case (Inl a)
  then show ?thesis by simp
next
  case (Inr d)
  from main_Inr[OF Inr] obtain A1 am where
    a: "add_email_norm A = Inr A1" and l: "account_loop Map.empty (rows A1) = Inr am"
    by blast
  let ?upd = "\<lambda>r. r(''email_norm'' \<mapsto> str_strip_lower (row_get r col_email))"
  have g: "row_get (?upd r) col_numero_cuenta = row_get r col_numero_cuenta"
    by (rule row_get_upd) (rule col_neq_email_norm(2))
  have "?upd r \<in> set (rows A1)"
    using add_email_norm_Inr[OF a] assms(1) by simp
  from account_loop_bad[OF this, of e Map.empty] assms(2,3) l show ?thesis
    by (simp add: g)
qed

theorem bad_account_number_aborts_witness:
  "rows demo_bad_accounts ! 1 \<in> set (rows demo_bad_accounts)
   \<and> row_get (rows demo_bad_accounts ! 1) col_numero_cuenta = Text ''no tengo''
   \<and> notna (row_get (rows demo_bad_accounts ! 1) col_numero_cuenta)
   \<and> py_int (row_get (rows demo_bad_accounts ! 1) col_numero_cuenta) = Inl ValueError
   \<and> isl (main demo_env demo_members demo_bad_accounts)
   \<and> main demo_env demo_members demo_bad_accounts = Inl ValueError"
proof -
  have m: "rows demo_bad_accounts ! 1 \<in> set (rows demo_bad_accounts)"
    by (rule nth_mem) (simp add: demo_bad_accounts_def)
  have c: "row_get (rows demo_bad_accounts ! 1) col_numero_cuenta = Text ''no tengo''"
    by code_simp
  have n: "notna (row_get (rows demo_bad_accounts ! 1) col_numero_cuenta)"
    by code_simp
  have p: "py_int (row_get (rows demo_bad_accounts ! 1) col_numero_cuenta) = Inl ValueError"
    by code_simp
  have v: "main demo_env demo_members demo_bad_accounts = Inl ValueError"
    by code_simp
  show ?thesis
    using m c n p v bad_account_number_aborts[OF m n p, of demo_env demo_members] by simp
qed

subsection \<open>The generation field\<close>

text \<open>
  C6, as the code has it: \<open>normalize_generation\<close> gives absent on a blank cell; when the
  cell converts to a finite float, the decimal text of that number truncated toward zero;
  when the conversion raises \<^verbatim>\<open>ValueError\<close> or \<^verbatim>\<open>TypeError\<close>, or gives NaN, the cell
  text trimmed. \<open>normalize_generation 2021.0\<close> is \<open>"2021"\<close> and
  \<open>normalize_generation "N/A"\<close> is \<open>"N/A"\<close>.
\<close>

theorem normalize_generation_rule:
  "(isna raw \<longrightarrow> normalize_generation raw = Inr None)
   \<and> (\<not> isna raw \<and> py_float raw = Inr (Fin q)
        \<longrightarrow> normalize_generation raw = Inr (Some (str_int (truncate_toward_zero q))))
   \<and> (\<not> isna raw
        \<and> (py_float raw = Inl ValueError \<or> py_float raw = Inl TypeError
            \<or> py_float raw = Inr NaN)
        \<longrightarrow> normalize_generation raw = Inr (Some (strip (py_str raw))))
   \<and> normalize_generation (Num (Fin 2021) ''2021.0'') = Inr (Some ''2021'')
   \<and> normalize_generation (Text ''N/A'') = Inr (Some ''N/A'')"
proof (intro conjI impI)
  assume "isna raw"
  then show "normalize_generation raw = Inr None" by (simp add: normalize_generation_def)
next
  assume "\<not> isna raw \<and> py_float raw = Inr (Fin q)"
  then show "normalize_generation raw = Inr (Some (str_int (truncate_toward_zero q)))"
    by (simp add: normalize_generation_def bind_err_def int_of_float_def trunc_eq)
next
  assume "\<not> isna raw
        \<and> (py_float raw = Inl ValueError \<or> py_float raw = Inl TypeError
            \<or> py_float raw = Inr NaN)"
  then show "normalize_generation raw = Inr (Some (strip (py_str raw)))"
    by (auto simp: normalize_generation_def bind_err_def int_of_float_def)
next
  show "normalize_generation (Num (Fin 2021) ''2021.0'') = Inr (Some ''2021'')"
    by code_simp
next
  show "normalize_generation (Text ''N/A'') = Inr (Some ''N/A'')"
    by code_simp
qed

theorem normalize_generation_rule_witness:
  "isna Blank \<and> normalize_generation Blank = Inr None
   \<and> \<not> isna (Num (Fin (4043 / 2)) ''2021.5'')
   \<and> py_float (Num (Fin (4043 / 2)) ''2021.5'') = Inr (Fin (4043 / 2))
   \<and> normalize_generation (Num (Fin (4043 / 2)) ''2021.5'') = Inr (Some ''2021'')
   \<and> \<not> isna (Num (Fin (- 3 / 2)) ''-1.5'')
   \<and> normalize_generation (Num (Fin (- 3 / 2)) ''-1.5'') = Inr (Some ''-1'')
   \<and> \<not> isna (Text '' 2019-2 '')
   \<and> py_float (Text '' 2019-2 '') = Inl ValueError
   \<and> normalize_generation (Text '' 2019-2 '') = Inr (Some ''2019-2'')"
proof -
  have a: "isna Blank" "\<not> isna (Num (Fin (4043 / 2)) ''2021.5'')"
    "\<not> isna (Text '' 2019-2 '')" "\<not> isna (Num (Fin (- 3 / 2)) ''-1.5'')"
    by simp_all
  have b: "py_float (Num (Fin (4043 / 2)) ''2021.5'') = Inr (Fin (4043 / 2))"
    "py_float (Num (Fin (- 3 / 2)) ''-1.5'') = Inr (Fin (- 3 / 2))"
    by simp_all
  have c: "py_float (Text '' 2019-2 '') = Inl ValueError" by code_simp
  have d: "str_int (truncate_toward_zero (4043 / 2)) = ''2021''"
    "str_int (truncate_toward_zero (- 3 / 2)) = ''-1''"
    "strip (py_str (Text '' 2019-2 '')) = ''2019-2''"
    by code_simp+
  show ?thesis
    using a b c d normalize_generation_rule[of Blank 0]
      normalize_generation_rule[of "Num (Fin (4043 / 2)) ''2021.5''" "4043 / 2"]
      normalize_generation_rule[of "Num (Fin (- 3 / 2)) ''-1.5''" "- 3 / 2"]
      normalize_generation_rule[of "Text '' 2019-2 ''" 0]
    by simp
qed

text \<open>
  The text \<open>NAN\<close> converts to a float, and the result is that text, which is the
  rendering of no integer: a cell that parses as a float does not always give the text of
  an integer.
\<close>

theorem normalize_generation_nan_counterexample:
  "\<not> isna (Text ''NAN'')
   \<and> py_float (Text ''NAN'') = Inr NaN
   \<and> normalize_generation (Text ''NAN'') = Inr (Some ''NAN'')
   \<and> int_of_str ''NAN'' = None"
  by code_simp

end
